theory Spec2Isabelle
  imports Complex_Main "HOL-Library.AList"
begin

section \<open>Values, documents and errors\<close>

text \<open>
  The program is a FastAPI service (\<^verbatim>\<open>main.py\<close>) over a MongoDB database, with its
  entities declared as pydantic models (\<^verbatim>\<open>schemas.py\<close>).

  Python values that occur in documents, request bodies and responses. A Python
  \<^verbatim>\<open>float\<close> is modelled by the rational it denotes: the program only stores and
  compares the literals \<^verbatim>\<open>299.0\<close>, \<^verbatim>\<open>249.0\<close>, \<^verbatim>\<open>399.0\<close> and never computes with them.
  A \<^verbatim>\<open>bson.ObjectId\<close> is modelled by a natural number. A \<^verbatim>\<open>str\<close> is the list of the
  bytes of its UTF-8 encoding.
\<close>

datatype pyval =
    PNone
  | PBool bool
  | PInt int
  | PFloat rat
  | PStr string
  | PList "pyval list"
  | PDict "(string \<times> pyval) list"
  | PObjectId nat

text \<open>
  A \<^verbatim>\<open>dict\<close> keeps its insertion order: an association list, read with \<^const>\<open>map_of\<close>
  and written with \<^const>\<open>AList.update\<close> (\<^verbatim>\<open>d[k] = v\<close>: in place when the key is present,
  appended otherwise).
\<close>

type_synonym dict = "(string \<times> pyval) list"

text \<open>
  Exceptions. \<open>HTTPException\<close> is the one \<^verbatim>\<open>main.py\<close> raises itself; \<open>PyMongoError\<close> is
  what a call on the database handle raises when the server does not answer;
  \<open>ValidationError\<close> is pydantic's, with one entry (field, violated rule) for every
  offending field; \<open>InvalidId\<close> is \<^verbatim>\<open>bson\<close>'s; \<open>TypeError\<close> is what subscripting
  \<^verbatim>\<open>None\<close> raises. \<open>StoreUnavailable\<close> and \<open>WriteFailure\<close>
  are the failures of the document store gateway (module \<^verbatim>\<open>database\<close>).
\<close>

datatype error =
    HTTPException nat string
  | PyMongoError string
  | ValidationError "(string \<times> string) list"
  | InvalidId
  | TypeError
  | StoreUnavailable
  | WriteFailure string

text \<open>
  The status FastAPI answers with when a handler (or the validation of its arguments)
  raises: an \<open>HTTPException\<close> carries its own, a request that fails validation is 422,
  any other exception is 500.
\<close>

fun status_code :: "error \<Rightarrow> nat" where
  "status_code (HTTPException c _) = c"
| "status_code (ValidationError _) = 422"
| "status_code _ = 500"

text \<open>The status of a response: 200 when the handler returns.\<close>

definition response_status :: "error + 'a \<Rightarrow> nat" where
  "response_status r = (case r of Inl e \<Rightarrow> status_code e | Inr _ \<Rightarrow> 200)"

text \<open>\<^verbatim>\<open>str(e)\<close> of a caught exception, for the exceptions that carry a message.\<close>

fun str_exc :: "error \<Rightarrow> string" where
  "str_exc (PyMongoError m) = m"
| "str_exc (WriteFailure m) = m"
| "str_exc (HTTPException _ m) = m"

section \<open>The database handle\<close>

text \<open>
  \<^verbatim>\<open>db\<close> is a module-level value imported from \<^verbatim>\<open>database\<close>: \<^verbatim>\<open>None\<close> when no
  connection is configured, a pymongo database otherwise. A database has a name and
  named collections, each a sequence of documents in natural (insertion) order.
  \<open>fault\<close> models a handle whose server does not answer: when it is \<open>Some m\<close>, every call
  that needs the server raises an exception with message \<open>m\<close>.
\<close>

record database =
  db_name :: string
  colls :: "(string \<times> dict list) list"
  fault :: "string option"

type_synonym db_handle = "database option"

text \<open>\<^verbatim>\<open>db[c]\<close>: the documents of collection \<open>c\<close>; a collection that does not exist is empty.\<close>

definition coll :: "database \<Rightarrow> string \<Rightarrow> dict list" where
  "coll d c = (case map_of (colls d) c of None \<Rightarrow> [] | Some ds \<Rightarrow> ds)"

text \<open>A call that needs the server: its result, or the fault.\<close>

definition server_call :: "database \<Rightarrow> 'a \<Rightarrow> error + 'a" where
  "server_call d x = (case fault d of Some m \<Rightarrow> Inl (PyMongoError m) | None \<Rightarrow> Inr x)"

definition list_collection_names :: "database \<Rightarrow> error + string list" where
  "list_collection_names d = server_call d (map fst (colls d))"

text \<open>
  A filter \<^verbatim>\<open>{k: q, ...}\<close> with plain values: every listed field must match. A field
  matches \<open>q\<close> when it equals \<open>q\<close>, or is an array with the element \<open>q\<close>; a missing field
  matches only \<^verbatim>\<open>None\<close>. Query operators are not modelled (the program uses none).
\<close>

fun field_matches :: "pyval option \<Rightarrow> pyval \<Rightarrow> bool" where
  "field_matches None q = (q = PNone)"
| "field_matches (Some (PList xs)) q = (PList xs = q \<or> q \<in> set xs)"
| "field_matches (Some v) q = (v = q)"

definition matches :: "dict \<Rightarrow> dict \<Rightarrow> bool" where
  "matches flt doc = list_all (\<lambda>(k, q). field_matches (map_of doc k) q) flt"

definition count_documents :: "database \<Rightarrow> string \<Rightarrow> dict \<Rightarrow> error + nat" where
  "count_documents d c flt = server_call d (length (filter (matches flt) (coll d c)))"

definition find_one :: "database \<Rightarrow> string \<Rightarrow> dict \<Rightarrow> error + dict option" where
  "find_one d c flt = server_call d (find (matches flt) (coll d c))"

section \<open>The diagnostic endpoint\<close>

text \<open>The two marks of the status strings, U+2705 and U+274C, in UTF-8.\<close>

definition check_mark :: string where
  "check_mark = [CHR 0xE2, CHR 0x9C, CHR 0x85]"

definition cross_mark :: string where
  "cross_mark = [CHR 0xE2, CHR 0x9D, CHR 0x8C]"

text \<open>
  \<^verbatim>\<open>GET /test\<close>, \<^verbatim>\<open>test_database\<close>. \<open>env_url\<close> is \<^verbatim>\<open>os.getenv("DATABASE_URL")\<close>; an empty
  string is falsy. The body of the outer \<^verbatim>\<open>try\<close> runs on the response built so far and
  gives the exception it ends with, if any, and the response as it then is; the inner
  \<^verbatim>\<open>try\<close> catches what \<^verbatim>\<open>list_collection_names\<close> raises.
\<close>

definition test_database_try :: "string option \<Rightarrow> db_handle \<Rightarrow> dict \<Rightarrow> (error + unit) \<times> dict" where
  "test_database_try env_url db response =
     (case db of
        Some d \<Rightarrow>
          (let response = AList.update ''database'' (PStr (check_mark @ '' Connected'')) response;
               response = AList.update ''database_url''
                            (PStr (if env_url \<noteq> None \<and> env_url \<noteq> Some []
                                   then check_mark @ '' Set'' else cross_mark @ '' Not Set'')) response;
               response = AList.update ''database_name'' (PStr (db_name d)) response
           in (case list_collection_names d of
                 Inr collections \<Rightarrow>
                   (Inr (), AList.update ''collections'' (PList (map PStr collections)) response)
               | Inl e \<Rightarrow>
                   (Inr (), AList.update ''collections_error'' (PStr (str_exc e)) response)))
      | None \<Rightarrow>
          (Inr (), AList.update ''database'' (PStr (cross_mark @ '' Not Available'')) response))"

definition test_database :: "string option \<Rightarrow> db_handle \<Rightarrow> error + dict" where
  "test_database env_url db =
     (let response =
            [(''backend'', PStr (check_mark @ '' Running'')),
             (''database'', PStr (cross_mark @ '' Not Available'')),
             (''database_url'', PStr (cross_mark @ '' Not Set'')),
             (''database_name'', PStr (cross_mark @ '' Not Set'')),
             (''collections'', PList [])]
      in (case test_database_try env_url db response of
            (Inr _, response) \<Rightarrow> Inr response
          | (Inl e, response) \<Rightarrow> Inr (AList.update ''error'' (PStr (str_exc e)) response)))"


section \<open>Identifiers\<close>

text \<open>
  \<^verbatim>\<open>str(oid)\<close> of an ObjectId is its value in lower-case hexadecimal, 24 digits with
  leading zeros; \<^verbatim>\<open>ObjectId(s)\<close> reads such a string back and raises \<open>InvalidId\<close> on
  anything else. Identifiers are natural numbers here, so a value of more than 24
  digits keeps all its digits.
\<close>

definition hex_digits :: string where
  "hex_digits = ''0123456789abcdef''"

definition hex_digit :: "nat \<Rightarrow> char" where
  "hex_digit d = hex_digits ! d"

definition hex_value :: "char \<Rightarrow> nat" where
  "hex_value c = length (takeWhile (\<lambda>x. x \<noteq> c) hex_digits)"

definition is_hex :: "char \<Rightarrow> bool" where
  "is_hex c = (c \<in> set hex_digits)"

fun to_hex :: "nat \<Rightarrow> string" where
  "to_hex n = (if n < 16 then [hex_digit n] else to_hex (n div 16) @ [hex_digit (n mod 16)])"

declare to_hex.simps [simp del]

definition of_hex :: "string \<Rightarrow> nat" where
  "of_hex s = foldl (\<lambda>a c. 16 * a + hex_value c) 0 s"

definition str_ObjectId :: "nat \<Rightarrow> string" where
  "str_ObjectId n = replicate (24 - length (to_hex n)) (CHR ''0'') @ to_hex n"

definition ObjectId :: "string \<Rightarrow> error + nat" where
  "ObjectId s = (if 24 \<le> length s \<and> list_all is_hex s then Inr (of_hex s) else Inl InvalidId)"

text \<open>
  \<^verbatim>\<open>str(v)\<close> for the values an \<^verbatim>\<open>_id\<close> entry can hold when the handlers convert it:
  an ObjectId, a string (already converted), \<^verbatim>\<open>None\<close> (\<^verbatim>\<open>d.get("_id")\<close> of a document
  without one).
\<close>

fun py_str :: "pyval \<Rightarrow> string" where
  "py_str (PObjectId n) = str_ObjectId n"
| "py_str (PStr s) = s"
| "py_str PNone = ''None''"
| "py_str (PBool b) = (if b then ''True'' else ''False'')"

text \<open>
  The ObjectId the driver gives a document inserted without \<^verbatim>\<open>_id\<close> is one that no
  document of the collection carries: the successor of the largest ObjectId that
  occurs in an \<^verbatim>\<open>_id\<close> of the collection.
\<close>

fun oids_of :: "pyval option \<Rightarrow> nat list" where
  "oids_of (Some (PObjectId n)) = [n]"
| "oids_of (Some (PList xs)) = concat (map (\<lambda>x. case x of PObjectId n \<Rightarrow> [n] | _ \<Rightarrow> []) xs)"
| "oids_of _ = []"

definition fresh_oid :: "dict list \<Rightarrow> nat" where
  "fresh_oid docs = Suc (foldr max (concat (map (\<lambda>d. oids_of (map_of d ''_id'')) docs)) 0)"

text \<open>
  \<^verbatim>\<open>db[c].insert_one(doc)\<close> for a document without \<^verbatim>\<open>_id\<close>: the stored document is
  \<open>doc\<close> with its new \<^verbatim>\<open>_id\<close> in front, at the end of the collection (which is created
  when it does not exist). The result is the new identifier and the database.
\<close>

definition insert_one :: "database \<Rightarrow> string \<Rightarrow> dict \<Rightarrow> error + (nat \<times> database)" where
  "insert_one d c doc =
     (let oid = fresh_oid (coll d c)
      in server_call d
           (oid, d\<lparr>colls := AList.update c (coll d c @ [(''_id'', PObjectId oid) # doc]) (colls d)\<rparr>))"

text \<open>\<^verbatim>\<open>db[c]\<close> on the module-level handle: subscripting \<^verbatim>\<open>None\<close> raises.\<close>

definition subscript :: "db_handle \<Rightarrow> error + database" where
  "subscript db = (case db of None \<Rightarrow> Inl TypeError | Some d \<Rightarrow> Inr d)"

definition and_then :: "error + 'a \<Rightarrow> ('a \<Rightarrow> error + 'b) \<Rightarrow> error + 'b" where
  "and_then r f = (case r of Inl e \<Rightarrow> Inl e | Inr x \<Rightarrow> f x)"

section \<open>Schemas\<close>

text \<open>
  The pydantic models of \<^verbatim>\<open>schemas.py\<close> that \<^verbatim>\<open>main.py\<close> uses. \<^verbatim>\<open>Optional[T]\<close> is
  \<open>T option\<close>. The fields \<^verbatim>\<open>name\<close> and \<^verbatim>\<open>message\<close> of \<^verbatim>\<open>Testimonial\<close> are \<open>t_name\<close> and
  \<open>t_message\<close>, since \<^verbatim>\<open>Enquiry\<close> has fields of the same names.
\<close>

record Course =
  slug :: string
  title :: string
  category :: string
  short_description :: string
  description :: "string option"
  image_url :: "string option"
  icon :: "string option"
  duration_weeks :: "int option"
  price :: "rat option"
  highlights :: "string list option"
  syllabus :: "string list option"

record Testimonial =
  t_name :: string
  course_slug :: "string option"
  t_message :: string
  score_or_result :: "string option"
  avatar_url :: "string option"

record Enquiry =
  name :: string
  email :: string
  phone :: "string option"
  course_interest :: "string option"
  message :: "string option"

text \<open>
  Constructing a \<^verbatim>\<open>Course\<close> validates the field constraints \<^verbatim>\<open>ge=1\<close> of
  \<^verbatim>\<open>duration_weeks\<close> and \<^verbatim>\<open>ge=0\<close> of \<^verbatim>\<open>price\<close>, reporting every violation.
\<close>

definition Course_init :: "Course \<Rightarrow> error + Course" where
  "Course_init c =
     (let errs =
            (case duration_weeks c of
               Some n \<Rightarrow> if n \<ge> 1 then [] else [(''duration_weeks'', ''greater_than_equal'')]
             | None \<Rightarrow> []) @
            (case price c of
               Some p \<Rightarrow> if p \<ge> 0 then [] else [(''price'', ''greater_than_equal'')]
             | None \<Rightarrow> [])
      in if errs = [] then Inr c else Inl (ValidationError errs))"

text \<open>\<^verbatim>\<open>model_dump\<close>: the fields of a model as a dict, in declaration order.\<close>

definition opt :: "('a \<Rightarrow> pyval) \<Rightarrow> 'a option \<Rightarrow> pyval" where
  "opt f x = (case x of None \<Rightarrow> PNone | Some v \<Rightarrow> f v)"

definition str_list :: "string list \<Rightarrow> pyval" where
  "str_list xs = PList (map PStr xs)"

datatype model = MCourse Course | MTestimonial Testimonial | MEnquiry Enquiry

fun model_dump :: "model \<Rightarrow> dict" where
  "model_dump (MCourse c) =
     [(''slug'', PStr (slug c)),
      (''title'', PStr (title c)),
      (''category'', PStr (category c)),
      (''short_description'', PStr (short_description c)),
      (''description'', opt PStr (description c)),
      (''image_url'', opt PStr (image_url c)),
      (''icon'', opt PStr (icon c)),
      (''duration_weeks'', opt PInt (duration_weeks c)),
      (''price'', opt PFloat (price c)),
      (''highlights'', opt str_list (highlights c)),
      (''syllabus'', opt str_list (syllabus c))]"
| "model_dump (MTestimonial t) =
     [(''name'', PStr (t_name t)),
      (''course_slug'', opt PStr (course_slug t)),
      (''message'', PStr (t_message t)),
      (''score_or_result'', opt PStr (score_or_result t)),
      (''avatar_url'', opt PStr (avatar_url t))]"
| "model_dump (MEnquiry e) =
     [(''name'', PStr (name e)),
      (''email'', PStr (email e)),
      (''phone'', opt PStr (phone e)),
      (''course_interest'', opt PStr (course_interest e)),
      (''message'', opt PStr (message e))]"

text \<open>
  Validation of a request body against \<^verbatim>\<open>Enquiry\<close>. The model declares no
  configuration, so pydantic's default applies: only the declared fields are read,
  and a key that is not a declared field is ignored. \<^verbatim>\<open>str\<close> fields take a string,
  \<^verbatim>\<open>Optional[str] = None\<close> fields a string, \<^verbatim>\<open>None\<close> or nothing. \<^verbatim>\<open>EmailStr\<close> checks the
  string with the \<^verbatim>\<open>email-validator\<close> library, which is a parameter here: \<open>ev s\<close> is
  the normalised address, or \<open>None\<close> when \<open>s\<close> is not a syntactically valid address.
\<close>

definition required_str :: "dict \<Rightarrow> string \<Rightarrow> (string \<times> string) + string" where
  "required_str kv k =
     (case map_of kv k of
        None \<Rightarrow> Inl (k, ''missing'')
      | Some (PStr s) \<Rightarrow> Inr s
      | Some _ \<Rightarrow> Inl (k, ''string_type''))"

definition optional_str :: "dict \<Rightarrow> string \<Rightarrow> (string \<times> string) + string option" where
  "optional_str kv k =
     (case map_of kv k of
        None \<Rightarrow> Inr None
      | Some PNone \<Rightarrow> Inr None
      | Some (PStr s) \<Rightarrow> Inr (Some s)
      | Some _ \<Rightarrow> Inl (k, ''string_type''))"

definition email_str :: "(string \<Rightarrow> string option) \<Rightarrow> dict \<Rightarrow> string \<Rightarrow> (string \<times> string) + string" where
  "email_str ev kv k =
     (case required_str kv k of
        Inl e \<Rightarrow> Inl e
      | Inr s \<Rightarrow> (case ev s of None \<Rightarrow> Inl (k, ''value_error'') | Some a \<Rightarrow> Inr a))"

definition errs_of :: "(string \<times> string) + 'a \<Rightarrow> (string \<times> string) list" where
  "errs_of r = (case r of Inl e \<Rightarrow> [e] | Inr _ \<Rightarrow> [])"

definition Enquiry_validate :: "(string \<Rightarrow> string option) \<Rightarrow> pyval \<Rightarrow> error + Enquiry" where
  "Enquiry_validate ev body =
     (case body of
        PDict kv \<Rightarrow>
          (let n = required_str kv ''name'';
               e = email_str ev kv ''email'';
               p = optional_str kv ''phone'';
               ci = optional_str kv ''course_interest'';
               m = optional_str kv ''message''
           in (case (n, e, p, ci, m) of
                 (Inr n', Inr e', Inr p', Inr ci', Inr m') \<Rightarrow>
                   Inr \<lparr>name = n', email = e', phone = p', course_interest = ci', message = m'\<rparr>
               | _ \<Rightarrow>
                   Inl (ValidationError (errs_of n @ errs_of e @ errs_of p @ errs_of ci @ errs_of m))))
      | _ \<Rightarrow> Inl (ValidationError [(''body'', ''model_attributes_type'')]))"

text \<open>
  Where an example needs a concrete validator, this one stands in for the library:
  it accepts, unchanged, a string with a non-empty local part, one \<^verbatim>\<open>@\<close> and a dot in
  the domain.
\<close>

definition sample_validator :: "string \<Rightarrow> string option" where
  "sample_validator s =
     (case dropWhile (\<lambda>c. c \<noteq> CHR ''@'') s of
        [] \<Rightarrow> None
      | _ # host \<Rightarrow>
          if takeWhile (\<lambda>c. c \<noteq> CHR ''@'') s \<noteq> [] \<and> CHR ''.'' \<in> set host \<and> CHR ''@'' \<notin> set host
          then Some s else None)"


section \<open>The document store gateway\<close>

text \<open>
  Modelled from the spec: \<^verbatim>\<open>create_document\<close> of the module \<^verbatim>\<open>database\<close>, which
  \<^verbatim>\<open>main.py\<close> imports and which is not among the sources. The spec (4.2): \<^emph>\<open>create\<close> "serializes the validated record (dropping any
  client-supplied identifier) and inserts it; returns the newly assigned identifier as
  an opaque string. Fails with StoreUnavailable if no live connection exists, or
  WriteFailure on a store-level error".
\<close>

definition create_document :: "string \<Rightarrow> model \<Rightarrow> db_handle \<Rightarrow> (error + string) \<times> db_handle" where
  "create_document collection_name data db =
     (case db of
        None \<Rightarrow> (Inl StoreUnavailable, db)
      | Some d \<Rightarrow>
          (case insert_one d collection_name (AList.delete ''_id'' (model_dump data)) of
             Inl e \<Rightarrow> (Inl (WriteFailure (str_exc e)), db)
           | Inr (oid, d') \<Rightarrow> (Inr (str_ObjectId oid), Some d')))"

text \<open>
  Modelled from the spec: the normalisation that \<^verbatim>\<open>get_documents\<close>, which is not among
  the sources, applies to each record it returns, "its identifier normalized to a
  string field".
\<close>

definition normalize_id :: "dict \<Rightarrow> dict" where
  "normalize_id doc =
     (case map_of doc ''_id'' of
        None \<Rightarrow> doc
      | Some v \<Rightarrow> AList.update ''_id'' (PStr (py_str v)) doc)"

text \<open>
  Modelled from the spec: \<^verbatim>\<open>get_documents\<close> of the module \<^verbatim>\<open>database\<close>, not among the
  sources. The spec (4.2): \<^emph>\<open>query\<close> "returns matching records in the store's natural
  order (no implied sort), each with its identifier normalized to a string field;
  unlimited unless limit given. Fails with StoreUnavailable if disconnected; returns an
  empty sequence (never an error) when zero documents match". A fault of the store is
  passed on as it is.
\<close>

definition get_documents :: "string \<Rightarrow> dict \<Rightarrow> int option \<Rightarrow> db_handle \<Rightarrow> error + dict list" where
  "get_documents collection_name filter_dict limit db =
     (case db of
        None \<Rightarrow> Inl StoreUnavailable
      | Some d \<Rightarrow>
          server_call d
            (map normalize_id
               (let found = filter (matches filter_dict) (coll d collection_name)
                in case limit of None \<Rightarrow> found | Some n \<Rightarrow> take (nat n) found)))"

section \<open>Seeding\<close>

text \<open>The three courses and two testimonials written out in \<^verbatim>\<open>seed_if_empty\<close>.\<close>

definition ielts_coaching :: Course where
  "ielts_coaching =
     \<lparr>slug = ''ielts-coaching'',
      title = ''IELTS Coaching'',
      category = ''Exam Prep'',
      short_description = ''Master IELTS with expert trainers and personalized feedback.'',
      description = Some ''A structured IELTS program covering Listening, Reading, Writing, and Speaking with mock tests and band-improvement strategies.'',
      image_url = Some ''https://images.unsplash.com/photo-1517520287167-4bbf64a00d66?q=80&w=1600&auto=format&fit=crop'',
      icon = Some ''GraduationCap'',
      duration_weeks = Some 8,
      price = Some 299,
      highlights = Some [''Band-focused curriculum'', ''Weekly mock tests'', ''Speaking rooms and feedback''],
      syllabus = Some [''Diagnostic test'', ''Module-wise mastery'', ''Full-length mocks'']\<rparr>"

definition pte_preparation :: Course where
  "pte_preparation =
     \<lparr>slug = ''pte-preparation'',
      title = ''PTE Preparation'',
      category = ''Exam Prep'',
      short_description = ''Ace PTE with strategy-driven sessions and practice labs.'',
      description = Some ''Learn the PTE patterns, time management and scoring mechanics with practice on real-like tests.'',
      image_url = Some ''https://images.unsplash.com/photo-1523050854058-8df90110c9f1?q=80&w=1600&auto=format&fit=crop'',
      icon = Some ''BookOpen'',
      duration_weeks = Some 6,
      price = Some 249,
      highlights = Some [''AI-scored practice'', ''Templates and hacks'', ''Doubt-clearing clinics''],
      syllabus = Some [''Speaking & Writing'', ''Reading'', ''Listening'']\<rparr>"

definition foreign_languages :: Course where
  "foreign_languages =
     \<lparr>slug = ''foreign-languages'',
      title = ''Foreign Languages'',
      category = ''Language'',
      short_description = ''Learn German, French, Spanish, Japanese and more.'',
      description = Some ''Level-based language learning with immersive activities and conversation practice.'',
      image_url = Some ''https://images.unsplash.com/photo-1546410531-bb4caa6b424d?q=80&w=1600&auto=format&fit=crop'',
      icon = Some ''Globe2'',
      duration_weeks = Some 12,
      price = Some 399,
      highlights = Some [''A1'' @ [CHR 0xE2, CHR 0x80, CHR 0x93] @ ''C1 levels'', ''Native mentors'', ''Cultural immersion''],
      syllabus = Some [''Basics'', ''Grammar & Vocabulary'', ''Conversation'']\<rparr>"

text \<open>A list display of constructor calls: the first constructor that raises ends it.\<close>

fun collect :: "(error + 'a) list \<Rightarrow> error + 'a list" where
  "collect [] = Inr []"
| "collect (r # rs) =
     (case r of
        Inl e \<Rightarrow> Inl e
      | Inr x \<Rightarrow> (case collect rs of Inl e \<Rightarrow> Inl e | Inr xs \<Rightarrow> Inr (x # xs)))"

definition sample_courses :: "error + Course list" where
  "sample_courses =
     collect [Course_init ielts_coaching, Course_init pte_preparation, Course_init foreign_languages]"

definition testimonials :: "Testimonial list" where
  "testimonials =
     [\<lparr>t_name = ''Aarav S.'', course_slug = Some ''ielts-coaching'',
       t_message = ''Scored an overall 8.0! The mocks and feedback were game-changers.'',
       score_or_result = Some ''IELTS 8.0'', avatar_url = None\<rparr>,
      \<lparr>t_name = ''Meera T.'', course_slug = Some ''pte-preparation'',
       t_message = ''I loved the labs. Cracked PTE in the first attempt.'',
       score_or_result = Some ''PTE 79+'', avatar_url = None\<rparr>]"

text \<open>
  What an empty collection holds once its block has run: the dumps of the sample
  records in order, with the identifiers the driver assigns from an empty collection.
\<close>

definition seeded_courses :: "dict list" where
  "seeded_courses =
     [(''_id'', PObjectId 1) # model_dump (MCourse ielts_coaching),
      (''_id'', PObjectId 2) # model_dump (MCourse pte_preparation),
      (''_id'', PObjectId 3) # model_dump (MCourse foreign_languages)]"

definition seeded_testimonials :: "dict list" where
  "seeded_testimonials =
     [(''_id'', PObjectId 1) # model_dump (MTestimonial (testimonials ! 0)),
      (''_id'', PObjectId 2) # model_dump (MTestimonial (testimonials ! 1))]"

text \<open>\<^verbatim>\<open>for x in xs: create_document(c, x)\<close>: an exception ends the loop.\<close>

fun create_each :: "string \<Rightarrow> model list \<Rightarrow> db_handle \<Rightarrow> (error + unit) \<times> db_handle" where
  "create_each c [] db = (Inr (), db)"
| "create_each c (x # xs) db =
     (case create_document c x db of
        (Inl e, db') \<Rightarrow> (Inl e, db')
      | (Inr _, db') \<Rightarrow> create_each c xs db')"

text \<open>The two blocks of \<^verbatim>\<open>seed_if_empty\<close>, each gated by its own count.\<close>

definition seed_courses :: "db_handle \<Rightarrow> (error + unit) \<times> db_handle" where
  "seed_courses db =
     (case and_then (subscript db) (\<lambda>d. count_documents d ''course'' []) of
        Inl e \<Rightarrow> (Inl e, db)
      | Inr n \<Rightarrow>
          if n = 0 then
            (case sample_courses of
               Inl e \<Rightarrow> (Inl e, db)
             | Inr cs \<Rightarrow> create_each ''course'' (map MCourse cs) db)
          else (Inr (), db))"

definition seed_testimonials :: "db_handle \<Rightarrow> (error + unit) \<times> db_handle" where
  "seed_testimonials db =
     (case and_then (subscript db) (\<lambda>d. count_documents d ''testimonial'' []) of
        Inl e \<Rightarrow> (Inl e, db)
      | Inr n \<Rightarrow>
          if n = 0 then create_each ''testimonial'' (map MTestimonial testimonials) db
          else (Inr (), db))"

definition seed_if_empty :: "db_handle \<Rightarrow> (error + unit) \<times> db_handle" where
  "seed_if_empty db =
     (if db = None then (Inr (), db)
      else (case seed_courses db of
              (Inl e, db') \<Rightarrow> (Inl e, db')
            | (Inr _, db') \<Rightarrow> seed_testimonials db'))"

section \<open>The API\<close>

text \<open>\<^verbatim>\<open>GET /api/courses\<close>.\<close>

definition list_courses :: "db_handle \<Rightarrow> error + dict" where
  "list_courses db =
     (case get_documents ''course'' [] None db of
        Inl e \<Rightarrow> Inl e
      | Inr docs \<Rightarrow>
          Inr [(''items'',
                PList (map (\<lambda>d. PDict (AList.update ''_id''
                                          (case map_of d ''_id'' of
                                             Some v \<Rightarrow> PStr (py_str v)
                                           | None \<Rightarrow> PNone) d)) docs))])"

text \<open>
  \<^verbatim>\<open>GET /api/courses/{slug}\<close>. \<^verbatim>\<open>not doc\<close> holds of \<^verbatim>\<open>None\<close> and of an empty dict.
\<close>

definition get_course :: "string \<Rightarrow> db_handle \<Rightarrow> error + dict" where
  "get_course slug_arg db =
     (if db = None then Inl (HTTPException 500 ''Database not available'')
      else (case and_then (subscript db) (\<lambda>d. find_one d ''course'' [(''slug'', PStr slug_arg)]) of
              Inl e \<Rightarrow> Inl e
            | Inr None \<Rightarrow> Inl (HTTPException 404 ''Course not found'')
            | Inr (Some doc) \<Rightarrow>
                if doc = [] then Inl (HTTPException 404 ''Course not found'')
                else Inr (AList.update ''_id''
                            (case map_of doc ''_id'' of
                               Some v \<Rightarrow> PStr (py_str v)
                             | None \<Rightarrow> PNone) doc)))"

text \<open>
  \<^verbatim>\<open>GET /api/testimonials\<close>. The argument is the query parameter \<^verbatim>\<open>limit\<close> when the
  request has one; without it the parameter's default, 10, applies.
\<close>

definition list_testimonials :: "int option \<Rightarrow> db_handle \<Rightarrow> error + dict" where
  "list_testimonials limit_param db =
     (let limit = (case limit_param of None \<Rightarrow> 10 | Some n \<Rightarrow> n)
      in case get_documents ''testimonial'' [] (Some limit) db of
           Inl e \<Rightarrow> Inl e
         | Inr docs \<Rightarrow>
             Inr [(''items'',
                   PList (map (\<lambda>d. PDict (AList.update ''_id''
                                             (PStr (py_str (case map_of d ''_id'' of
                                                              Some v \<Rightarrow> v
                                                            | None \<Rightarrow> PNone))) d)) docs))])"

text \<open>\<^verbatim>\<open>submit_enquiry\<close>, the handler of \<^verbatim>\<open>POST /api/enquiries\<close>, on a validated payload.\<close>

definition submit_enquiry :: "Enquiry \<Rightarrow> db_handle \<Rightarrow> (error + dict) \<times> db_handle" where
  "submit_enquiry payload db =
     (case create_document ''enquiry'' (MEnquiry payload) db of
        (Inl e, db') \<Rightarrow> (Inl e, db')
      | (Inr enquiry_id, db') \<Rightarrow> (Inr [(''status'', PStr ''ok''), (''id'', PStr enquiry_id)], db'))"

text \<open>
  The route as FastAPI runs it: the body is validated against the handler's parameter
  type first, and the handler runs only on a body that passes.
\<close>

definition post_enquiries ::
    "(string \<Rightarrow> string option) \<Rightarrow> pyval \<Rightarrow> db_handle \<Rightarrow> (error + dict) \<times> db_handle" where
  "post_enquiries ev body db =
     (case Enquiry_validate ev body of
        Inl e \<Rightarrow> (Inl e, db)
      | Inr payload \<Rightarrow> submit_enquiry payload db)"

text \<open>
  A direct query of the store for an identifier string:
  \<^verbatim>\<open>db[c].find_one({"_id": ObjectId(s)})\<close>.
\<close>

definition find_by_id :: "db_handle \<Rightarrow> string \<Rightarrow> string \<Rightarrow> error + dict option" where
  "find_by_id db c s =
     and_then (subscript db) (\<lambda>d.
       and_then (ObjectId s) (\<lambda>oid. find_one d c [(''_id'', PObjectId oid)]))"


section \<open>Basic facts about the store\<close>

lemma coll_colls_update [simp]:
  "coll (d\<lparr>colls := AList.update c ds cs\<rparr>) c' = (if c' = c then ds else coll (d\<lparr>colls := cs\<rparr>) c')"
  by (simp add: coll_def update_conv')

lemma coll_colls_same [simp]: "coll (d\<lparr>colls := colls d\<rparr>) c = coll d c"
  by (simp add: coll_def)

lemma matches_empty [simp]: "matches [] doc"
  by (simp add: matches_def)

lemma count_all: "fault d = None \<Longrightarrow> count_documents d c [] = Inr (length (coll d c))"
  by (simp add: count_documents_def server_call_def)

lemma count_fault: "fault d = Some m \<Longrightarrow> count_documents d c flt = Inl (PyMongoError m)"
  by (simp add: count_documents_def server_call_def)

lemma delete_id_dump [simp]: "AList.delete ''_id'' (model_dump m) = model_dump m"
  by (cases m) simp_all

lemma create_document_live:
  "fault d = None \<Longrightarrow>
   create_document c m (Some d) =
     (Inr (str_ObjectId (fresh_oid (coll d c))),
      Some (d\<lparr>colls := AList.update c
                 (coll d c @ [(''_id'', PObjectId (fresh_oid (coll d c))) # model_dump m]) (colls d)\<rparr>))"
  by (simp add: create_document_def insert_one_def server_call_def Let_def)

section \<open>Seeding: the two blocks\<close>

lemma sample_courses_ok:
  "sample_courses = Inr [ielts_coaching, pte_preparation, foreign_languages]"
  by (simp add: sample_courses_def Course_init_def ielts_coaching_def pte_preparation_def
        foreign_languages_def)

lemma seed_courses_empty:
  assumes "fault d = None" and "coll d ''course'' = []"
  shows "seed_courses (Some d) =
           (Inr (),
            Some (d\<lparr>colls := AList.update ''course'' seeded_courses (colls d)\<rparr>))"
  using assms
  by (simp add: seed_courses_def and_then_def subscript_def count_all sample_courses_ok
        create_document_live fresh_oid_def update_last numeral_2_eq_2 numeral_3_eq_3
        seeded_courses_def)

lemma seed_courses_nonempty:
  assumes "fault d = None" and "coll d ''course'' \<noteq> []"
  shows "seed_courses (Some d) = (Inr (), Some d)"
  using assms
  by (simp add: seed_courses_def and_then_def subscript_def count_all)

lemma seed_testimonials_empty:
  assumes "fault d = None" and "coll d ''testimonial'' = []"
  shows "seed_testimonials (Some d) =
           (Inr (),
            Some (d\<lparr>colls := AList.update ''testimonial'' seeded_testimonials (colls d)\<rparr>))"
  using assms
  by (simp add: seed_testimonials_def and_then_def subscript_def count_all testimonials_def
        create_document_live fresh_oid_def update_last numeral_2_eq_2 numeral_3_eq_3
        seeded_testimonials_def)

lemma seed_testimonials_nonempty:
  assumes "fault d = None" and "coll d ''testimonial'' \<noteq> []"
  shows "seed_testimonials (Some d) = (Inr (), Some d)"
  using assms
  by (simp add: seed_testimonials_def and_then_def subscript_def count_all)

lemma seed_fault:
  assumes "fault d = Some m"
  shows "seed_if_empty (Some d) = (Inl (PyMongoError m), Some d)"
  using assms
  by (simp add: seed_if_empty_def seed_courses_def and_then_def subscript_def count_fault)

section \<open>The diagnostic endpoint never fails\<close>

text \<open>
  C7. \<^verbatim>\<open>GET /test\<close> is total: for every value of \<^verbatim>\<open>DATABASE_URL\<close> and every handle,
  absent, answering or faulting, \<^verbatim>\<open>test_database\<close> returns a body, so the response is
  200 and nothing is raised. Without a handle the body's \<^verbatim>\<open>database\<close> is
  "\<^verbatim>\<open>Not Available\<close>" after the cross mark. With a handle whose server does not answer,
  the fault's message is the string field \<^verbatim>\<open>collections_error\<close> of the body, and no
  \<^verbatim>\<open>error\<close> field is set.
\<close>

theorem test_database_total:
  "(\<exists>body. test_database env_url db = Inr body)
   \<and> response_status (test_database env_url db) = 200
   \<and> (db = None \<longrightarrow>
        (\<exists>body. test_database env_url db = Inr body
           \<and> map_of body ''database'' = Some (PStr (cross_mark @ '' Not Available''))))
   \<and> (\<forall>d m. db = Some d \<and> fault d = Some m \<longrightarrow>
        (\<exists>body. test_database env_url db = Inr body
           \<and> map_of body ''collections_error'' = Some (PStr m)
           \<and> map_of body ''error'' = None))"
  by (auto simp: test_database_def test_database_try_def Let_def response_status_def
        list_collection_names_def server_call_def update_conv'
      split: option.splits sum.splits prod.splits)

theorem test_database_total_witness:
  "test_database None None =
     Inr [(''backend'', PStr (check_mark @ '' Running'')),
          (''database'', PStr (cross_mark @ '' Not Available'')),
          (''database_url'', PStr (cross_mark @ '' Not Set'')),
          (''database_name'', PStr (cross_mark @ '' Not Set'')),
          (''collections'', PList [])]
   \<and> response_status (test_database None None) = 200
   \<and> test_database (Some ''mongodb://localhost'')
        (Some \<lparr>db_name = ''iil'', colls = [], fault = Some ''timed out''\<rparr>) =
     Inr [(''backend'', PStr (check_mark @ '' Running'')),
          (''database'', PStr (check_mark @ '' Connected'')),
          (''database_url'', PStr (check_mark @ '' Set'')),
          (''database_name'', PStr ''iil''),
          (''collections'', PList []),
          (''collections_error'', PStr ''timed out'')]"
  using test_database_total [of None None]
    test_database_total [of "Some ''mongodb://localhost''"
      "Some \<lparr>db_name = ''iil'', colls = [], fault = Some ''timed out''\<rparr>"]
  by (simp add: test_database_def test_database_try_def list_collection_names_def
        server_call_def)


section \<open>Seeding: the whole routine\<close>

lemma seeded_courses_length [simp]: "seeded_courses \<noteq> []" "length seeded_courses = 3"
  by (simp_all add: seeded_courses_def)

lemma seeded_testimonials_length [simp]:
  "seeded_testimonials \<noteq> []" "length seeded_testimonials = 2"
  by (simp_all add: seeded_testimonials_def)

text \<open>On a handle that answers, each block fills its collection when it is empty.\<close>

lemma seed_live:
  assumes "fault d = None"
  shows "\<exists>d'. seed_if_empty (Some d) = (Inr (), Some d')
           \<and> fault d' = None \<and> db_name d' = db_name d
           \<and> coll d' ''course'' = (if coll d ''course'' = [] then seeded_courses else coll d ''course'')
           \<and> coll d' ''testimonial'' =
               (if coll d ''testimonial'' = [] then seeded_testimonials else coll d ''testimonial'')
           \<and> (\<forall>c. c \<noteq> ''course'' \<and> c \<noteq> ''testimonial'' \<longrightarrow> coll d' c = coll d c)"
proof (cases "coll d ''course'' = []")
  case True
  note c = this
  show ?thesis
  proof (cases "coll d ''testimonial'' = []")
    case True
    with c assms show ?thesis
      by (simp add: seed_if_empty_def seed_courses_empty seed_testimonials_empty)
  next
    case False
    with c assms show ?thesis
      by (simp add: seed_if_empty_def seed_courses_empty seed_testimonials_nonempty)
  qed
next
  case False
  note c = this
  show ?thesis
  proof (cases "coll d ''testimonial'' = []")
    case True
    with c assms show ?thesis
      by (simp add: seed_if_empty_def seed_courses_nonempty seed_testimonials_empty)
  next
    case False
    with c assms show ?thesis
      by (simp add: seed_if_empty_def seed_courses_nonempty seed_testimonials_nonempty)
  qed
qed

lemma seed_noop:
  assumes "fault d = None" "coll d ''course'' \<noteq> []" "coll d ''testimonial'' \<noteq> []"
  shows "seed_if_empty (Some d) = (Inr (), Some d)"
  using assms by (simp add: seed_if_empty_def seed_courses_nonempty seed_testimonials_nonempty)

text \<open>
  C1. Seeding twice in succession leaves the store that seeding once leaves, from
  every state of the handle: absent, faulting or answering. On a handle that
  answers, the first run leaves both collections non-empty, so both counts of the
  second run are non-zero and it returns the store unchanged.
\<close>

theorem seed_if_empty_idempotent:
  "snd (seed_if_empty (snd (seed_if_empty db))) = snd (seed_if_empty db)
   \<and> (\<forall>d. db = Some d \<and> fault d = None \<longrightarrow>
        (\<exists>d'. seed_if_empty db = (Inr (), Some d')
           \<and> coll d' ''course'' \<noteq> [] \<and> coll d' ''testimonial'' \<noteq> []
           \<and> seed_if_empty (Some d') = (Inr (), Some d')))"
proof (cases db)
  case None
  then show ?thesis by (simp add: seed_if_empty_def)
next
  case (Some d)
  show ?thesis
  proof (cases "fault d")
    case None
    from seed_live [OF None] obtain d' where d':
      "seed_if_empty (Some d) = (Inr (), Some d')" "fault d' = None"
      "coll d' ''course'' = (if coll d ''course'' = [] then seeded_courses else coll d ''course'')"
      "coll d' ''testimonial'' =
         (if coll d ''testimonial'' = [] then seeded_testimonials else coll d ''testimonial'')"
      by blast
    have ne: "coll d' ''course'' \<noteq> []" "coll d' ''testimonial'' \<noteq> []"
      using d'(3,4) by (simp_all split: if_splits)
    have "seed_if_empty (Some d') = (Inr (), Some d')"
      using seed_noop [OF d'(2) ne] .
    with d' ne Some None show ?thesis by simp
  next
    case (Some m)
    with \<open>db = Some d\<close> show ?thesis by (simp add: seed_fault)
  qed
qed

theorem seed_if_empty_idempotent_witness:
  "seed_if_empty (Some \<lparr>db_name = ''iil'', colls = [], fault = None\<rparr>) =
     (Inr (), Some \<lparr>db_name = ''iil'',
                    colls = [(''course'', seeded_courses), (''testimonial'', seeded_testimonials)],
                    fault = None\<rparr>)
   \<and> seed_if_empty (Some \<lparr>db_name = ''iil'',
                          colls = [(''course'', seeded_courses), (''testimonial'', seeded_testimonials)],
                          fault = None\<rparr>) =
     (Inr (), Some \<lparr>db_name = ''iil'',
                    colls = [(''course'', seeded_courses), (''testimonial'', seeded_testimonials)],
                    fault = None\<rparr>)"
  using seed_if_empty_idempotent [of "Some \<lparr>db_name = ''iil'', colls = [], fault = None\<rparr>"]
  by (simp add: seed_if_empty_def seed_courses_empty seed_testimonials_empty
        seed_courses_nonempty seed_testimonials_nonempty coll_def)


section \<open>Seeding an empty store\<close>

lemma list_courses_live:
  assumes "fault d = None"
  shows "\<exists>items. list_courses (Some d) = Inr [(''items'', PList items)]
           \<and> length items = length (coll d ''course'')"
  using assms by (simp add: list_courses_def get_documents_def server_call_def)

lemma seeded_courses_slugs:
  "map (\<lambda>doc. map_of doc ''slug'') seeded_courses =
     [Some (PStr ''ielts-coaching''), Some (PStr ''pte-preparation''), Some (PStr ''foreign-languages'')]"
  by (simp add: seeded_courses_def ielts_coaching_def pte_preparation_def foreign_languages_def)

lemma seeded_courses_dumps:
  "map (AList.delete ''_id'') seeded_courses =
     map model_dump [MCourse ielts_coaching, MCourse pte_preparation, MCourse foreign_languages]"
  by (simp add: seeded_courses_def)

lemma seeded_testimonials_dumps:
  "map (AList.delete ''_id'') seeded_testimonials = map model_dump (map MTestimonial testimonials)"
  by (simp add: seeded_testimonials_def testimonials_def)

text \<open>
  C2. On a handle that answers, with the course and testimonial collections both
  empty, seeding returns normally and leaves exactly 3 course documents, with the
  slugs \<^verbatim>\<open>ielts-coaching\<close>, \<^verbatim>\<open>pte-preparation\<close>, \<^verbatim>\<open>foreign-languages\<close> in this order and,
  apart from their identifiers, the dumps of the three sample courses, and exactly 2
  testimonial documents, the dumps of the two sample testimonials; \<^verbatim>\<open>list_courses\<close>
  then returns 3 items.
\<close>

theorem seed_fresh_store:
  assumes "fault d = None" and "coll d ''course'' = []" and "coll d ''testimonial'' = []"
  shows "\<exists>d'. seed_if_empty (Some d) = (Inr (), Some d')
           \<and> length (coll d' ''course'') = 3
           \<and> map (\<lambda>doc. map_of doc ''slug'') (coll d' ''course'') =
               [Some (PStr ''ielts-coaching''), Some (PStr ''pte-preparation''),
                Some (PStr ''foreign-languages'')]
           \<and> map (AList.delete ''_id'') (coll d' ''course'') =
               map model_dump [MCourse ielts_coaching, MCourse pte_preparation, MCourse foreign_languages]
           \<and> length (coll d' ''testimonial'') = 2
           \<and> map (AList.delete ''_id'') (coll d' ''testimonial'') =
               map model_dump (map MTestimonial testimonials)
           \<and> (\<exists>items. list_courses (Some d') = Inr [(''items'', PList items)] \<and> length items = 3)"
proof -
  from seed_live [OF assms(1)] obtain d' where d':
    "seed_if_empty (Some d) = (Inr (), Some d')" "fault d' = None"
    "coll d' ''course'' = seeded_courses" "coll d' ''testimonial'' = seeded_testimonials"
    using assms(2,3) by auto
  from list_courses_live [OF d'(2)] d'(3)
  have "\<exists>items. list_courses (Some d') = Inr [(''items'', PList items)] \<and> length items = 3"
    by simp
  with d' show ?thesis
    by (simp add: seeded_courses_slugs seeded_courses_dumps seeded_testimonials_dumps)
qed

theorem seed_fresh_store_witness:
  "fault \<lparr>db_name = ''iil'', colls = [(''enquiry'', [])], fault = None\<rparr> = None
   \<and> coll \<lparr>db_name = ''iil'', colls = [(''enquiry'', [])], fault = None\<rparr> ''course'' = []
   \<and> coll \<lparr>db_name = ''iil'', colls = [(''enquiry'', [])], fault = None\<rparr> ''testimonial'' = []
   \<and> (\<exists>d'. seed_if_empty (Some \<lparr>db_name = ''iil'', colls = [(''enquiry'', [])], fault = None\<rparr>) =
              (Inr (), Some d')
          \<and> length (coll d' ''course'') = 3
          \<and> length (coll d' ''testimonial'') = 2
          \<and> (\<exists>items. list_courses (Some d') = Inr [(''items'', PList items)] \<and> length items = 3))"
proof -
  let ?d = "\<lparr>db_name = ''iil'', colls = [(''enquiry'', [])], fault = None\<rparr>"
  have h: "fault ?d = None" "coll ?d ''course'' = []" "coll ?d ''testimonial'' = []"
    by (simp_all add: coll_def)
  from seed_fresh_store [OF h] h show ?thesis by blast
qed

section \<open>What seeding touches\<close>

text \<open>
  C10. Without a handle \<^verbatim>\<open>seed_if_empty\<close> returns at once, normally, where a call of
  the gateway would have raised. With a handle, whatever it returns, the database
  keeps its name and its fault, every collection other than \<^verbatim>\<open>course\<close> and
  \<^verbatim>\<open>testimonial\<close> keeps its documents, and these two keep theirs and may only gain
  documents at the end. The two are gated independently: an empty course collection
  is seeded while a non-empty testimonial collection stays as it is, and the other
  way round.
\<close>

theorem seed_if_empty_frame:
  "seed_if_empty None = (Inr (), None)
   \<and> fst (create_document c m None) = Inl StoreUnavailable
   \<and> (\<exists>r d'. seed_if_empty (Some d) = (r, Some d')
         \<and> db_name d' = db_name d \<and> fault d' = fault d
         \<and> (\<forall>c. c \<noteq> ''course'' \<and> c \<noteq> ''testimonial'' \<longrightarrow> coll d' c = coll d c)
         \<and> (\<exists>new. coll d' ''course'' = coll d ''course'' @ new)
         \<and> (\<exists>new. coll d' ''testimonial'' = coll d ''testimonial'' @ new)
         \<and> (fault d = None \<and> coll d ''course'' = [] \<and> coll d ''testimonial'' \<noteq> [] \<longrightarrow>
              r = Inr () \<and> coll d' ''course'' = seeded_courses
              \<and> coll d' ''testimonial'' = coll d ''testimonial'')
         \<and> (fault d = None \<and> coll d ''course'' \<noteq> [] \<and> coll d ''testimonial'' = [] \<longrightarrow>
              r = Inr () \<and> coll d' ''course'' = coll d ''course''
              \<and> coll d' ''testimonial'' = seeded_testimonials))"
proof (cases "fault d")
  case None
  from seed_live [OF None] obtain d' where d':
    "seed_if_empty (Some d) = (Inr (), Some d')" "fault d' = None" "db_name d' = db_name d"
    "coll d' ''course'' = (if coll d ''course'' = [] then seeded_courses else coll d ''course'')"
    "coll d' ''testimonial'' =
       (if coll d ''testimonial'' = [] then seeded_testimonials else coll d ''testimonial'')"
    "\<forall>c. c \<noteq> ''course'' \<and> c \<noteq> ''testimonial'' \<longrightarrow> coll d' c = coll d c"
    by blast
  have "seed_if_empty None = (Inr (), None)" by (simp add: seed_if_empty_def)
  moreover have "fst (create_document c m None) = Inl StoreUnavailable"
    by (simp add: create_document_def)
  ultimately show ?thesis using d' None by auto
next
  case (Some e)
  have "seed_if_empty None = (Inr (), None)" by (simp add: seed_if_empty_def)
  moreover have "fst (create_document c m None) = Inl StoreUnavailable"
    by (simp add: create_document_def)
  moreover have "seed_if_empty (Some d) = (Inl (PyMongoError e), Some d)"
    using Some by (rule seed_fault)
  ultimately show ?thesis using Some by simp
qed

theorem seed_if_empty_frame_witness:
  "seed_if_empty
     (Some \<lparr>db_name = ''iil'',
            colls = [(''testimonial'', [[(''_id'', PObjectId 7), (''name'', PStr ''Zoe'')]]),
                     (''enquiry'', [[(''_id'', PObjectId 4), (''name'', PStr ''Ann'')]])],
            fault = None\<rparr>) =
     (Inr (),
      Some \<lparr>db_name = ''iil'',
            colls = [(''testimonial'', [[(''_id'', PObjectId 7), (''name'', PStr ''Zoe'')]]),
                     (''enquiry'', [[(''_id'', PObjectId 4), (''name'', PStr ''Ann'')]]),
                     (''course'', seeded_courses)],
            fault = None\<rparr>)
   \<and> seed_if_empty
       (Some \<lparr>db_name = ''iil'',
              colls = [(''course'', [[(''_id'', PObjectId 9), (''slug'', PStr ''latin'')]])],
              fault = None\<rparr>) =
     (Inr (),
      Some \<lparr>db_name = ''iil'',
            colls = [(''course'', [[(''_id'', PObjectId 9), (''slug'', PStr ''latin'')]]),
                     (''testimonial'', seeded_testimonials)],
            fault = None\<rparr>)"
  using seed_if_empty_frame
          [of "''enquiry''" "MCourse ielts_coaching"
              "\<lparr>db_name = ''iil'',
                colls = [(''course'', [[(''_id'', PObjectId 9), (''slug'', PStr ''latin'')]])],
                fault = None\<rparr>"]
        seed_if_empty_frame
          [of "''enquiry''" "MCourse ielts_coaching"
              "\<lparr>db_name = ''iil'',
                colls = [(''testimonial'', [[(''_id'', PObjectId 7), (''name'', PStr ''Zoe'')]]),
                         (''enquiry'', [[(''_id'', PObjectId 4), (''name'', PStr ''Ann'')]])],
                fault = None\<rparr>"]
  by (simp add: seed_if_empty_def seed_courses_empty seed_testimonials_nonempty
        seed_courses_nonempty seed_testimonials_empty coll_def)

section \<open>Looking up a seeded course\<close>

text \<open>
  C9. After seeding a store whose course collection is empty (on a handle that
  answers), \<^verbatim>\<open>get_course\<close> for the slug \<^verbatim>\<open>ielts-coaching\<close> returns a document with
  \<^verbatim>\<open>title\<close> "IELTS Coaching", \<^verbatim>\<open>duration_weeks\<close> 8 and \<^verbatim>\<open>price\<close> 299.0.
\<close>

theorem seed_then_get_course:
  assumes "fault d = None" and "coll d ''course'' = []"
  shows "\<exists>doc. get_course ''ielts-coaching'' (snd (seed_if_empty (Some d))) = Inr doc
           \<and> map_of doc ''slug'' = Some (PStr ''ielts-coaching'')
           \<and> map_of doc ''title'' = Some (PStr ''IELTS Coaching'')
           \<and> map_of doc ''duration_weeks'' = Some (PInt 8)
           \<and> map_of doc ''price'' = Some (PFloat 299)"
proof -
  from seed_live [OF assms(1)] obtain d' where d':
    "seed_if_empty (Some d) = (Inr (), Some d')" "fault d' = None"
    "coll d' ''course'' = seeded_courses"
    using assms(2) by auto
  have "find_one d' ''course'' [(''slug'', PStr ''ielts-coaching'')] =
          Inr (Some ((''_id'', PObjectId 1) # model_dump (MCourse ielts_coaching)))"
    using d'(2,3)
    by (simp add: find_one_def server_call_def seeded_courses_def matches_def ielts_coaching_def)
  then show ?thesis using d'(1)
    by (simp add: get_course_def and_then_def subscript_def update_conv' ielts_coaching_def opt_def)
qed

theorem seed_then_get_course_witness:
  "\<exists>doc. get_course ''ielts-coaching''
            (snd (seed_if_empty (Some \<lparr>db_name = ''iil'', colls = [], fault = None\<rparr>))) = Inr doc
         \<and> map_of doc ''title'' = Some (PStr ''IELTS Coaching'')
         \<and> map_of doc ''duration_weeks'' = Some (PInt 8)
         \<and> map_of doc ''price'' = Some (PFloat 299)"
proof -
  let ?d = "\<lparr>db_name = ''iil'', colls = [], fault = None\<rparr>"
  have h: "fault ?d = None" "coll ?d ''course'' = []" by (simp_all add: coll_def)
  from seed_then_get_course [OF h] show ?thesis by blast
qed


section \<open>Identifiers and their strings\<close>

lemma below_16:
  assumes "d < (16::nat)"
  shows "d = 0 \<or> d = 1 \<or> d = 2 \<or> d = 3 \<or> d = 4 \<or> d = 5 \<or> d = 6 \<or> d = 7
       \<or> d = 8 \<or> d = 9 \<or> d = 10 \<or> d = 11 \<or> d = 12 \<or> d = 13 \<or> d = 14 \<or> d = 15"
  using assms by arith

lemma hex_value_digit: "d < 16 \<Longrightarrow> hex_value (hex_digit d) = d"
  by (drule below_16, elim disjE) (simp_all add: hex_value_def hex_digit_def hex_digits_def)

lemma is_hex_digit: "d < 16 \<Longrightarrow> is_hex (hex_digit d)"
  by (drule below_16, elim disjE) (simp_all add: is_hex_def hex_digit_def hex_digits_def)

lemma of_hex_snoc: "of_hex (s @ [c]) = 16 * of_hex s + hex_value c"
  by (simp add: of_hex_def)

lemma of_hex_to_hex: "of_hex (to_hex n) = n"
proof (induction n rule: to_hex.induct)
  case (1 n)
  show ?case
  proof (cases "n < 16")
    case True
    then show ?thesis
      by (subst to_hex.simps) (simp add: of_hex_def hex_value_digit)
  next
    case False
    with 1 have "of_hex (to_hex (n div 16)) = n div 16" by simp
    with False show ?thesis
      by (subst to_hex.simps) (simp add: of_hex_snoc hex_value_digit)
  qed
qed

lemma to_hex_all_hex: "list_all is_hex (to_hex n)"
proof (induction n rule: to_hex.induct)
  case (1 n)
  show ?case
  proof (cases "n < 16")
    case True
    then show ?thesis by (subst to_hex.simps) (simp add: is_hex_digit)
  next
    case False
    with 1 have "list_all is_hex (to_hex (n div 16))" by simp
    with False show ?thesis by (subst to_hex.simps) (simp add: is_hex_digit)
  qed
qed

lemma to_hex_nonempty: "to_hex n \<noteq> []"
  by (subst to_hex.simps) simp

lemma of_hex_zeros: "of_hex (replicate k (CHR ''0'') @ s) = of_hex s"
proof -
  have z: "hex_value (CHR ''0'') = 0" by (simp add: hex_value_def hex_digits_def)
  have "foldl (\<lambda>a c. 16 * a + hex_value c) 0 (replicate k (CHR ''0'')) = 0"
    by (induction k) (simp_all add: z)
  then show ?thesis by (simp add: of_hex_def)
qed

lemma str_ObjectId_length: "24 \<le> length (str_ObjectId n)"
  by (simp add: str_ObjectId_def)

lemma str_ObjectId_nonempty: "str_ObjectId n \<noteq> []"
  by (simp add: str_ObjectId_def to_hex_nonempty)

lemma ObjectId_str: "ObjectId (str_ObjectId n) = Inr n"
proof -
  have "is_hex (CHR ''0'')" by (simp add: is_hex_def hex_digits_def)
  then have "list_all is_hex (str_ObjectId n)"
    using to_hex_all_hex [of n] by (auto simp: str_ObjectId_def list_all_iff)
  moreover have "of_hex (str_ObjectId n) = n"
    by (simp add: str_ObjectId_def of_hex_zeros of_hex_to_hex)
  ultimately show ?thesis
    using str_ObjectId_length [of n] by (simp add: ObjectId_def)
qed

lemma foldr_max_ge: "n \<in> set xs \<Longrightarrow> n \<le> foldr max xs (0::nat)"
  by (induction xs) auto

lemma oid_less_fresh:
  assumes "doc \<in> set docs" and "n \<in> set (oids_of (map_of doc ''_id''))"
  shows "n < fresh_oid docs"
proof -
  from assms have "n \<in> set (concat (map (\<lambda>d. oids_of (map_of d ''_id'')) docs))" by auto
  then show ?thesis unfolding fresh_oid_def by (simp add: foldr_max_ge less_Suc_eq_le)
qed

lemma field_matches_oid: "field_matches v (PObjectId n) \<Longrightarrow> n \<in> set (oids_of v)"
proof (cases v)
  case None
  then show "field_matches v (PObjectId n) \<Longrightarrow> n \<in> set (oids_of v)" by simp
next
  case (Some x)
  then show "field_matches v (PObjectId n) \<Longrightarrow> n \<in> set (oids_of v)"
    by (cases x) (auto intro!: bexI [of _ "PObjectId n"])
qed

lemma fresh_not_matched:
  assumes "doc \<in> set docs"
  shows "\<not> matches [(''_id'', PObjectId (fresh_oid docs))] doc"
proof
  assume "matches [(''_id'', PObjectId (fresh_oid docs))] doc"
  then have "field_matches (map_of doc ''_id'') (PObjectId (fresh_oid docs))"
    by (simp add: matches_def)
  then have "fresh_oid docs \<in> set (oids_of (map_of doc ''_id''))" by (rule field_matches_oid)
  with assms have "fresh_oid docs < fresh_oid docs" by (rule oid_less_fresh)
  then show False by simp
qed

lemma find_append_None: "find P xs = None \<Longrightarrow> find P (xs @ ys) = find P ys"
  by (induction xs) (auto split: if_splits)

lemma find_fresh:
  "find (matches [(''_id'', PObjectId (fresh_oid docs))])
     (docs @ [(''_id'', PObjectId (fresh_oid docs)) # doc]) =
   Some ((''_id'', PObjectId (fresh_oid docs)) # doc)"
proof -
  have "find (matches [(''_id'', PObjectId (fresh_oid docs))]) docs = None"
    by (simp add: find_None_iff fresh_not_matched)
  then show ?thesis by (simp add: find_append_None matches_def)
qed


section \<open>Submitting an enquiry\<close>

text \<open>
  C4. For every body that passes validation against \<^verbatim>\<open>Enquiry\<close> (so its email is one
  the validator accepts), on a handle that answers, the route returns
  \<^verbatim>\<open>{"status": "ok", "id": s}\<close> with \<open>s\<close> a non-empty string, and the direct query of
  the enquiry collection for the identifier \<open>s\<close> returns a document that, apart from
  its \<^verbatim>\<open>_id\<close>, is the validated payload field by field.
\<close>

theorem submit_enquiry_stored:
  assumes "Enquiry_validate ev body = Inr payload" and "fault d = None"
  shows "\<exists>oid d'.
           post_enquiries ev body (Some d) =
             (Inr [(''status'', PStr ''ok''), (''id'', PStr (str_ObjectId oid))], Some d')
           \<and> str_ObjectId oid \<noteq> []
           \<and> find_by_id (Some d') ''enquiry'' (str_ObjectId oid) =
               Inr (Some ((''_id'', PObjectId oid) # model_dump (MEnquiry payload)))
           \<and> AList.delete ''_id'' ((''_id'', PObjectId oid) # model_dump (MEnquiry payload)) =
               [(''name'', PStr (name payload)), (''email'', PStr (email payload)),
                (''phone'', opt PStr (phone payload)),
                (''course_interest'', opt PStr (course_interest payload)),
                (''message'', opt PStr (message payload))]"
proof -
  let ?oid = "fresh_oid (coll d ''enquiry'')"
  let ?doc = "(''_id'', PObjectId ?oid) # model_dump (MEnquiry payload)"
  let ?d' = "d\<lparr>colls := AList.update ''enquiry'' (coll d ''enquiry'' @ [?doc]) (colls d)\<rparr>"
  have post: "post_enquiries ev body (Some d) =
                (Inr [(''status'', PStr ''ok''), (''id'', PStr (str_ObjectId ?oid))], Some ?d')"
    using assms by (simp add: post_enquiries_def submit_enquiry_def create_document_live)
  have "find_one ?d' ''enquiry'' [(''_id'', PObjectId ?oid)] = Inr (Some ?doc)"
    using assms(2) by (simp add: find_one_def server_call_def find_fresh)
  then have q: "find_by_id (Some ?d') ''enquiry'' (str_ObjectId ?oid) = Inr (Some ?doc)"
    by (simp add: find_by_id_def and_then_def subscript_def ObjectId_str)
  from post q show ?thesis
    by (intro exI [of _ ?oid] exI [of _ ?d']) (simp add: str_ObjectId_nonempty)
qed


theorem submit_enquiry_stored_witness:
  "post_enquiries sample_validator
     (PDict [(''name'', PStr ''Ann''), (''email'', PStr ''ann@example.org''),
             (''message'', PStr ''Hello'')])
     (Some \<lparr>db_name = ''iil'', colls = [], fault = None\<rparr>) =
     (Inr [(''status'', PStr ''ok''), (''id'', PStr ''000000000000000000000001'')],
      Some \<lparr>db_name = ''iil'',
            colls = [(''enquiry'',
                      [[(''_id'', PObjectId 1), (''name'', PStr ''Ann''),
                        (''email'', PStr ''ann@example.org''), (''phone'', PNone),
                        (''course_interest'', PNone), (''message'', PStr ''Hello'')]])],
            fault = None\<rparr>)
   \<and> find_by_id
        (Some \<lparr>db_name = ''iil'',
               colls = [(''enquiry'',
                         [[(''_id'', PObjectId 1), (''name'', PStr ''Ann''),
                           (''email'', PStr ''ann@example.org''), (''phone'', PNone),
                           (''course_interest'', PNone), (''message'', PStr ''Hello'')]])],
               fault = None\<rparr>)
        ''enquiry'' ''000000000000000000000001'' =
      Inr (Some [(''_id'', PObjectId 1), (''name'', PStr ''Ann''),
                 (''email'', PStr ''ann@example.org''), (''phone'', PNone),
                 (''course_interest'', PNone), (''message'', PStr ''Hello'')])"
proof -
  let ?body = "PDict [(''name'', PStr ''Ann''), (''email'', PStr ''ann@example.org''),
                      (''message'', PStr ''Hello'')]"
  let ?p = "\<lparr>name = ''Ann'', email = ''ann@example.org'', phone = None,
             course_interest = None, message = Some ''Hello''\<rparr>"
  let ?d = "\<lparr>db_name = ''iil'', colls = [], fault = None\<rparr>"
  have v: "Enquiry_validate sample_validator ?body = Inr ?p"
    by (simp add: Enquiry_validate_def required_str_def email_str_def optional_str_def
          sample_validator_def)
  have f: "fault ?d = None" by simp
  have s1: "str_ObjectId (Suc 0) = ''000000000000000000000001''"
    by (simp add: str_ObjectId_def to_hex.simps hex_digit_def hex_digits_def eval_nat_numeral)
  have o1: "ObjectId ''000000000000000000000001'' = Inr 1"
    by (simp add: ObjectId_def is_hex_def hex_digits_def of_hex_def hex_value_def)
  from submit_enquiry_stored [OF v f] show ?thesis
    by (simp add: post_enquiries_def v submit_enquiry_def create_document_live coll_def
          fresh_oid_def s1 o1 find_by_id_def and_then_def subscript_def find_one_def
          server_call_def matches_def opt_def)
qed


section \<open>Listing testimonials\<close>

lemma get_documents_limit:
  "get_documents c flt (Some n) db = Inr docs \<Longrightarrow> length docs \<le> nat n"
  by (auto simp: get_documents_def server_call_def split: option.splits)

lemma list_testimonials_live:
  assumes "fault d = None"
  shows "\<exists>items. list_testimonials limit_param (Some d) = Inr [(''items'', PList items)]
           \<and> length items =
               min (nat (case limit_param of None \<Rightarrow> 10 | Some n \<Rightarrow> n)) (length (coll d ''testimonial''))"
  using assms
  by (simp add: list_testimonials_def get_documents_def server_call_def min.commute)

text \<open>
  C8. Whenever \<^verbatim>\<open>list_testimonials\<close> returns, its body is \<^verbatim>\<open>{"items": [...]}\<close> with at
  most \<open>limit\<close> items, where \<open>limit\<close> is 10 for a request without the parameter (for a
  negative \<open>limit\<close>: no item). On a handle that answers it does return, with the
  first \<open>limit\<close> testimonials, or all of them when there are fewer. After seeding an
  empty testimonial collection, which inserts 2, \<open>limit = 1\<close> gives exactly 1 item.
\<close>

theorem list_testimonials_limit:
  "(\<forall>body. list_testimonials limit_param db = Inr body \<longrightarrow>
      (\<exists>items. body = [(''items'', PList items)]
         \<and> length items \<le> nat (case limit_param of None \<Rightarrow> 10 | Some n \<Rightarrow> n)))
   \<and> list_testimonials None db = list_testimonials (Some 10) db
   \<and> (fault d = None \<longrightarrow>
        (\<exists>items. list_testimonials limit_param (Some d) = Inr [(''items'', PList items)]
           \<and> length items =
               min (nat (case limit_param of None \<Rightarrow> 10 | Some n \<Rightarrow> n))
                   (length (coll d ''testimonial''))))
   \<and> (fault d = None \<and> coll d ''testimonial'' = [] \<longrightarrow>
        (\<exists>d' item. seed_if_empty (Some d) = (Inr (), Some d')
           \<and> length (coll d' ''testimonial'') = 2
           \<and> list_testimonials (Some 1) (Some d') = Inr [(''items'', PList [item])]))"
proof -
  have a: "\<forall>body. list_testimonials limit_param db = Inr body \<longrightarrow>
      (\<exists>items. body = [(''items'', PList items)]
         \<and> length items \<le> nat (case limit_param of None \<Rightarrow> 10 | Some n \<Rightarrow> n))"
    by (auto simp: list_testimonials_def Let_def split: sum.splits dest: get_documents_limit)
  have b: "list_testimonials None db = list_testimonials (Some 10) db"
    by (simp add: list_testimonials_def)
  have c: "fault d = None \<longrightarrow>
        (\<exists>items. list_testimonials limit_param (Some d) = Inr [(''items'', PList items)]
           \<and> length items =
               min (nat (case limit_param of None \<Rightarrow> 10 | Some n \<Rightarrow> n))
                   (length (coll d ''testimonial'')))"
    using list_testimonials_live by blast
  have e: "fault d = None \<and> coll d ''testimonial'' = [] \<longrightarrow>
        (\<exists>d' item. seed_if_empty (Some d) = (Inr (), Some d')
           \<and> length (coll d' ''testimonial'') = 2
           \<and> list_testimonials (Some 1) (Some d') = Inr [(''items'', PList [item])])"
  proof
    assume h: "fault d = None \<and> coll d ''testimonial'' = []"
    with seed_live [of d] obtain d' where d':
      "seed_if_empty (Some d) = (Inr (), Some d')" "fault d' = None"
      "coll d' ''testimonial'' = seeded_testimonials"
      by auto
    from list_testimonials_live [OF d'(2), of "Some 1"] d'(3)
    obtain items where i: "list_testimonials (Some 1) (Some d') = Inr [(''items'', PList items)]"
      "length items = 1"
      by auto
    from i(2) obtain item where "items = [item]"
      by (cases items) auto
    with i d' show "\<exists>d' item. seed_if_empty (Some d) = (Inr (), Some d')
           \<and> length (coll d' ''testimonial'') = 2
           \<and> list_testimonials (Some 1) (Some d') = Inr [(''items'', PList [item])]"
      by simp
  qed
  from a b c e show ?thesis by blast
qed

theorem list_testimonials_limit_witness:
  "seed_if_empty (Some \<lparr>db_name = ''iil'', colls = [], fault = None\<rparr>) =
     (Inr (), Some \<lparr>db_name = ''iil'',
                    colls = [(''course'', seeded_courses), (''testimonial'', seeded_testimonials)],
                    fault = None\<rparr>)
   \<and> list_testimonials (Some 1)
       (Some \<lparr>db_name = ''iil'',
              colls = [(''course'', seeded_courses), (''testimonial'', seeded_testimonials)],
              fault = None\<rparr>) =
     Inr [(''items'',
           PList [PDict ((''_id'', PStr (str_ObjectId 1)) # model_dump (MTestimonial (testimonials ! 0)))])]
   \<and> list_testimonials None
       (Some \<lparr>db_name = ''iil'',
              colls = [(''course'', seeded_courses), (''testimonial'', seeded_testimonials)],
              fault = None\<rparr>) =
     Inr [(''items'',
           PList [PDict ((''_id'', PStr (str_ObjectId 1)) # model_dump (MTestimonial (testimonials ! 0))),
                  PDict ((''_id'', PStr (str_ObjectId 2)) # model_dump (MTestimonial (testimonials ! 1)))])]"
  using list_testimonials_limit
          [of "Some 1"
              "Some \<lparr>db_name = ''iil'',
                     colls = [(''course'', seeded_courses), (''testimonial'', seeded_testimonials)],
                     fault = None\<rparr>"
              "\<lparr>db_name = ''iil'', colls = [], fault = None\<rparr>"]
  by (simp add: seed_if_empty_def seed_courses_empty seed_testimonials_empty coll_def
        list_testimonials_def get_documents_def server_call_def seeded_testimonials_def
        normalize_id_def)

section \<open>Fetching a course by its slug\<close>

lemma slug_match_nonempty: "matches [(''slug'', PStr s)] doc \<Longrightarrow> doc \<noteq> []"
  by (auto simp: matches_def)

lemma get_course_None: "get_course s None = Inl (HTTPException 500 ''Database not available'')"
  by (simp add: get_course_def)

lemma get_course_fault:
  "fault d = Some m \<Longrightarrow> get_course s (Some d) = Inl (PyMongoError m)"
  by (simp add: get_course_def and_then_def subscript_def find_one_def server_call_def)

lemma get_course_absent:
  assumes "fault d = None" and "find (matches [(''slug'', PStr s)]) (coll d ''course'') = None"
  shows "get_course s (Some d) = Inl (HTTPException 404 ''Course not found'')"
  using assms
  by (simp add: get_course_def and_then_def subscript_def find_one_def server_call_def)

lemma get_course_present:
  assumes "fault d = None" and "find (matches [(''slug'', PStr s)]) (coll d ''course'') = Some doc"
  shows "get_course s (Some d) =
           Inr (AList.update ''_id''
                  (case map_of doc ''_id'' of Some v \<Rightarrow> PStr (py_str v) | None \<Rightarrow> PNone) doc)"
proof -
  from assms(2) have "matches [(''slug'', PStr s)] doc"
    by (auto simp: find_Some_iff)
  then have "doc \<noteq> []" by (rule slug_match_nonempty)
  with assms show ?thesis
    by (simp add: get_course_def and_then_def subscript_def find_one_def server_call_def)
qed

text \<open>
  C3. For every slug and every handle: \<^verbatim>\<open>get_course\<close> fails with the 404
  \<^verbatim>\<open>HTTPException\<close> exactly when there is a handle, it answers, and no document of the
  course collection matches the slug; it fails with the 500 \<^verbatim>\<open>HTTPException\<close>
  "Database not available" exactly when there is no handle (the status 500 also
  answers a handle whose server does not respond, and nothing else); and when a
  document matches, it returns the first such document with its \<^verbatim>\<open>_id\<close> replaced by
  the string of that \<^verbatim>\<open>_id\<close>.
\<close>

theorem get_course_outcomes:
  "(get_course s db = Inl (HTTPException 404 ''Course not found'') \<longleftrightarrow>
      (\<exists>d. db = Some d \<and> fault d = None
           \<and> (\<forall>doc \<in> set (coll d ''course''). \<not> matches [(''slug'', PStr s)] doc)))
   \<and> (response_status (get_course s db) = 404 \<longleftrightarrow>
      (\<exists>d. db = Some d \<and> fault d = None
           \<and> (\<forall>doc \<in> set (coll d ''course''). \<not> matches [(''slug'', PStr s)] doc)))
   \<and> (get_course s db = Inl (HTTPException 500 ''Database not available'') \<longleftrightarrow> db = None)
   \<and> (response_status (get_course s db) = 500 \<longleftrightarrow>
      db = None \<or> (\<exists>d m. db = Some d \<and> fault d = Some m))
   \<and> (\<forall>d doc. db = Some d \<and> fault d = None
         \<and> find (matches [(''slug'', PStr s)]) (coll d ''course'') = Some doc \<longrightarrow>
         get_course s db =
           Inr (AList.update ''_id''
                  (case map_of doc ''_id'' of Some v \<Rightarrow> PStr (py_str v) | None \<Rightarrow> PNone) doc)
         \<and> (\<forall>n. map_of doc ''_id'' = Some (PObjectId n) \<longrightarrow>
               get_course s db = Inr (AList.update ''_id'' (PStr (str_ObjectId n)) doc)))"
proof (cases db)
  case None
  then show ?thesis by (simp add: get_course_None response_status_def)
next
  case (Some d)
  show ?thesis
  proof (cases "fault d")
    case (Some m)
    with \<open>db = Some d\<close> show ?thesis by (simp add: get_course_fault response_status_def)
  next
    case None
    note f = this
    show ?thesis
    proof (cases "find (matches [(''slug'', PStr s)]) (coll d ''course'')")
      case None
      then have "\<forall>doc \<in> set (coll d ''course''). \<not> matches [(''slug'', PStr s)] doc"
        by (simp add: find_None_iff)
      with get_course_absent [OF f None] f None \<open>db = Some d\<close> show ?thesis
        by (simp add: response_status_def)
    next
      case (Some doc)
      then have "\<exists>doc \<in> set (coll d ''course''). matches [(''slug'', PStr s)] doc"
        by (auto simp: find_Some_iff)
      with get_course_present [OF f Some] f Some \<open>db = Some d\<close> show ?thesis
        by (auto simp: response_status_def)
    qed
  qed
qed

theorem get_course_outcomes_witness:
  "get_course ''nonexistent-course''
     (Some \<lparr>db_name = ''iil'', colls = [(''course'', seeded_courses)], fault = None\<rparr>) =
     Inl (HTTPException 404 ''Course not found'')
   \<and> get_course ''pte-preparation'' None = Inl (HTTPException 500 ''Database not available'')
   \<and> get_course ''pte-preparation''
       (Some \<lparr>db_name = ''iil'', colls = [(''course'', seeded_courses)], fault = None\<rparr>) =
     Inr ((''_id'', PStr (str_ObjectId 2)) # model_dump (MCourse pte_preparation))"
  using get_course_outcomes
          [of "''nonexistent-course''"
              "Some \<lparr>db_name = ''iil'', colls = [(''course'', seeded_courses)], fault = None\<rparr>"]
        get_course_outcomes [of "''pte-preparation''" None]
        get_course_outcomes
          [of "''pte-preparation''"
              "Some \<lparr>db_name = ''iil'', colls = [(''course'', seeded_courses)], fault = None\<rparr>"]
  by (simp add: get_course_def and_then_def subscript_def find_one_def server_call_def coll_def
        seeded_courses_def matches_def ielts_coaching_def pte_preparation_def
        foreign_languages_def)


section \<open>Validation of an enquiry\<close>

lemma email_str_invalid:
  assumes "\<forall>s. map_of kv ''email'' = Some (PStr s) \<longrightarrow> ev s = None"
  shows "\<exists>rule. email_str ev kv ''email'' = Inl (''email'', rule)"
  using assms
  by (auto simp: email_str_def required_str_def split: option.splits pyval.splits)

text \<open>
  C5. For every body whose \<^verbatim>\<open>email\<close> is not an address the validator accepts (a
  string it rejects, such as \<^verbatim>\<open>not-an-email\<close> for any validator that rejects it, or no
  string at all), the route raises a \<open>ValidationError\<close> that lists the field
  \<^verbatim>\<open>email\<close>, the response is 422, a status of the 4xx class, and the handle and its
  database are as before: the handler does not run and no document is created.
\<close>

theorem malformed_email_rejected:
  assumes "\<forall>s. map_of kv ''email'' = Some (PStr s) \<longrightarrow> ev s = None"
  shows "\<exists>errs rule.
           post_enquiries ev (PDict kv) db = (Inl (ValidationError errs), db)
           \<and> (''email'', rule) \<in> set errs
           \<and> response_status (fst (post_enquiries ev (PDict kv) db)) = 422
           \<and> 400 \<le> response_status (fst (post_enquiries ev (PDict kv) db))
           \<and> response_status (fst (post_enquiries ev (PDict kv) db)) < 500
           \<and> snd (post_enquiries ev (PDict kv) db) = db"
proof -
  from email_str_invalid [OF assms] obtain rule where
    e: "email_str ev kv ''email'' = Inl (''email'', rule)" by blast
  let ?errs = "errs_of (required_str kv ''name'') @ errs_of (email_str ev kv ''email'')
               @ errs_of (optional_str kv ''phone'') @ errs_of (optional_str kv ''course_interest'')
               @ errs_of (optional_str kv ''message'')"
  have v: "Enquiry_validate ev (PDict kv) = Inl (ValidationError ?errs)"
    using e by (simp add: Enquiry_validate_def Let_def split: sum.splits)
  have m: "(''email'', rule) \<in> set ?errs"
    using e by (simp add: errs_of_def)
  from v m show ?thesis
    by (intro exI [of _ ?errs] exI [of _ rule]) (simp add: post_enquiries_def response_status_def)
qed

theorem malformed_email_rejected_witness:
  "post_enquiries sample_validator
     (PDict [(''name'', PStr ''Ann''), (''email'', PStr ''not-an-email'')])
     (Some \<lparr>db_name = ''iil'', colls = [], fault = None\<rparr>) =
     (Inl (ValidationError [(''email'', ''value_error'')]),
      Some \<lparr>db_name = ''iil'', colls = [], fault = None\<rparr>)"
proof -
  have h: "\<forall>s. map_of [(''name'', PStr ''Ann''), (''email'', PStr ''not-an-email'')] ''email'' =
                  Some (PStr s) \<longrightarrow> sample_validator s = None"
    by (simp add: sample_validator_def)
  from malformed_email_rejected [OF h] show ?thesis
    by (simp add: post_enquiries_def Enquiry_validate_def required_str_def email_str_def
          optional_str_def errs_of_def sample_validator_def)
qed

text \<open>
  C6, as stated, fails: a body with a key that \<^verbatim>\<open>Enquiry\<close> does not declare passes
  validation, and the enquiry is stored.
\<close>

theorem unknown_field_accepted:
  "Enquiry_validate sample_validator
     (PDict [(''name'', PStr ''Ann''), (''email'', PStr ''ann@example.org''),
             (''is_admin'', PBool True)]) =
     Inr \<lparr>name = ''Ann'', email = ''ann@example.org'', phone = None,
          course_interest = None, message = None\<rparr>
   \<and> response_status
       (fst (post_enquiries sample_validator
               (PDict [(''name'', PStr ''Ann''), (''email'', PStr ''ann@example.org''),
                       (''is_admin'', PBool True)])
               (Some \<lparr>db_name = ''iil'', colls = [], fault = None\<rparr>))) = 200"
  by (simp add: Enquiry_validate_def required_str_def email_str_def optional_str_def
        sample_validator_def post_enquiries_def submit_enquiry_def create_document_live
        response_status_def)

text \<open>
  C6, amended. A key that \<^verbatim>\<open>Enquiry\<close> does not declare is ignored: wherever it stands
  in the body and whatever its value, validation gives the result it gives for the
  body without it, the same record or the same errors, and so the route does the same.
\<close>

theorem unknown_field_ignored:
  assumes "k \<notin> {''name'', ''email'', ''phone'', ''course_interest'', ''message''}"
  shows "Enquiry_validate ev (PDict (kv1 @ (k, v) # kv2)) = Enquiry_validate ev (PDict (kv1 @ kv2))
         \<and> post_enquiries ev (PDict (kv1 @ (k, v) # kv2)) db = post_enquiries ev (PDict (kv1 @ kv2)) db"
proof -
  have m: "map_of (kv1 @ (k, v) # kv2) k' = map_of (kv1 @ kv2) k'" if "k' \<noteq> k" for k'
    using that by (simp add: map_add_def split: option.splits)
  have r: "required_str (kv1 @ (k, v) # kv2) k' = required_str (kv1 @ kv2) k'" if "k' \<noteq> k" for k'
    using m [OF that] by (simp add: required_str_def)
  have o: "optional_str (kv1 @ (k, v) # kv2) k' = optional_str (kv1 @ kv2) k'" if "k' \<noteq> k" for k'
    using m [OF that] by (simp add: optional_str_def)
  have e: "email_str ev (kv1 @ (k, v) # kv2) k' = email_str ev (kv1 @ kv2) k'" if "k' \<noteq> k" for k'
    using r [OF that] by (simp add: email_str_def)
  from assms have ne: "''name'' \<noteq> k" "''email'' \<noteq> k" "''phone'' \<noteq> k"
    "''course_interest'' \<noteq> k" "''message'' \<noteq> k"
    by auto
  have "Enquiry_validate ev (PDict (kv1 @ (k, v) # kv2)) = Enquiry_validate ev (PDict (kv1 @ kv2))"
    unfolding Enquiry_validate_def
    by (simp only: pyval.case r [OF ne(1)] e [OF ne(2)] o [OF ne(3)] o [OF ne(4)] o [OF ne(5)])
  then show ?thesis by (simp add: post_enquiries_def)
qed

theorem unknown_field_ignored_witness:
  "Enquiry_validate sample_validator
     (PDict [(''name'', PStr ''Ann''), (''is_admin'', PBool True),
             (''email'', PStr ''ann@example.org'')]) =
   Enquiry_validate sample_validator
     (PDict [(''name'', PStr ''Ann''), (''email'', PStr ''ann@example.org'')])
   \<and> Enquiry_validate sample_validator
       (PDict [(''name'', PStr ''Ann''), (''email'', PStr ''ann@example.org'')]) =
     Inr \<lparr>name = ''Ann'', email = ''ann@example.org'', phone = None,
          course_interest = None, message = None\<rparr>"
proof -
  have h: "''is_admin'' \<notin> {''name'', ''email'', ''phone'', ''course_interest'', ''message''}"
    by simp
  from unknown_field_ignored [OF h, of sample_validator "[(''name'', PStr ''Ann'')]" "PBool True"
         "[(''email'', PStr ''ann@example.org'')]"]
  show ?thesis
    by (simp add: Enquiry_validate_def required_str_def email_str_def optional_str_def
          sample_validator_def)
qed

end
